theory Spec2Isabelle
  imports Main "HOL-Library.Char_ord" "HOL-Library.List_Lexorder"
begin

section \<open>Handlers of the OSV web frontend (gcp/appengine/frontend\_handlers.py)\<close>

text \<open>
  The module is a set of Flask request handlers over the Datastore kind \<open>Bug\<close>.
  Python strings are modelled as \<^typ>\<open>string\<close>, Python's unbounded integers as
  \<^typ>\<open>int\<close>, \<open>None\<close> as \<^const>\<open>None\<close>, an exception that leaves a handler as a
  value of the type \<open>outcome\<close> below.
\<close>

subsection \<open>Python string operations used by the handlers\<close>

text \<open>
  \<open>s.split(c)\<close> for a one-character separator: the string is cut at every occurrence
  of \<open>c\<close>, so a string with \<open>n\<close> separators yields \<open>n + 1\<close> parts (the empty string
  yields one empty part).
\<close>

fun str_split :: "char \<Rightarrow> string \<Rightarrow> string list" where
  "str_split c [] = [[]]"
| "str_split c (x # xs) =
     (if x = c then [] # str_split c xs
      else (case str_split c xs of
              [] \<Rightarrow> [[x]]
            | p # ps \<Rightarrow> (x # p) # ps))"

text \<open>
  \<open>s.split(c, 1)\<close>: the string is cut at the first occurrence of \<open>c\<close> only.
\<close>

definition str_split1 :: "char \<Rightarrow> string \<Rightarrow> string list" where
  "str_split1 c s =
     (if c \<in> set s then [takeWhile (\<lambda>x. x \<noteq> c) s, tl (dropWhile (\<lambda>x. x \<noteq> c) s)]
      else [s])"

text \<open>
  \<open>s.lower()\<close>. A \<^typ>\<open>char\<close> is a byte, so the model lower-cases the ASCII letters
  (the lower-case letter is the upper-case one plus 32, that is with bit 5 set) and
  leaves every other byte as it is.
\<close>

definition char_lower :: "char \<Rightarrow> char" where
  "char_lower c =
     (if CHR ''A'' \<le> c \<and> c \<le> CHR ''Z''
      then (case c of Char b0 b1 b2 b3 b4 b5 b6 b7 \<Rightarrow> Char b0 b1 b2 b3 b4 True b6 b7)
      else c)"

definition lower :: "string \<Rightarrow> string" where
  "lower s = map char_lower s"

text \<open>
  \<open>int(s)\<close> for a string: surrounding whitespace is dropped, one sign is allowed, and
  the rest must be decimal digits, where single underscores may stand between digits.
  Anything else raises \<open>ValueError\<close>. Digits and whitespace outside ASCII are not
  modelled.
\<close>

datatype exn = ValueError | InvalidArgument

definition is_space :: "char \<Rightarrow> bool" where
  "is_space c \<longleftrightarrow>
     c \<in> set [CHR 0x09, CHR 0x0A, CHR 0x0B, CHR 0x0C, CHR 0x0D,
              CHR 0x1C, CHR 0x1D, CHR 0x1E, CHR 0x1F, CHR 0x20]"

definition strip :: "string \<Rightarrow> string" where
  "strip s = rev (dropWhile is_space (rev (dropWhile is_space s)))"

definition digit_value :: "char \<Rightarrow> nat option" where
  "digit_value c =
     (if CHR ''0'' \<le> c \<and> c \<le> CHR ''9'' then Some (of_char c - 48) else None)"

fun digits_value :: "string \<Rightarrow> bool \<Rightarrow> nat \<Rightarrow> nat option" where
  "digits_value [] prev_digit acc = (if prev_digit then Some acc else None)"
| "digits_value (c # cs) prev_digit acc =
     (case digit_value c of
        Some d \<Rightarrow> digits_value cs True (10 * acc + d)
      | None \<Rightarrow>
          if c = CHR ''_'' \<and> prev_digit then digits_value cs False acc else None)"

definition py_int :: "string \<Rightarrow> exn + int" where
  "py_int s =
     (let t = strip s;
          (negative, body) =
            (case t of
               [] \<Rightarrow> (False, t)
             | c # r \<Rightarrow>
                 if c = CHR ''-'' then (True, r)
                 else if c = CHR ''+'' then (False, r)
                 else (False, t))
      in case digits_value body False 0 of
           None \<Rightarrow> Inl ValueError
         | Some n \<Rightarrow> Inr (if negative then - int n else int n))"

text \<open>
  What a handler does with a request: it returns a body, it calls \<open>abort(code)\<close>, or an
  exception leaves it (Flask then answers with status 500).
\<close>

datatype 'a outcome = Ok 'a | Abort nat | Raise exn

text \<open>\<open>request.args\<close> and \<open>request.headers\<close>: \<open>get(key)\<close> is the value or \<open>None\<close>.\<close>

type_synonym params = "string \<rightharpoonup> string"

subsection \<open>Commit links\<close>

text \<open>
  The module \<open>source_mapper\<close> is not part of the sources at hand. Its function
  \<open>get_vcs_viewer_for_url\<close> is a parameter of the model: it maps a repository URL to a
  viewer object, or to \<open>None\<close>. A viewer offers the two methods that
  \<open>_commit_to_link\<close> calls.
\<close>

record vcs_viewer =
  get_source_url_for_revision :: "string \<Rightarrow> string"
  get_source_url_for_revision_diff :: "string \<Rightarrow> string \<Rightarrow> string"

definition commit_to_link ::
  "(string \<Rightarrow> vcs_viewer option) \<Rightarrow> string \<Rightarrow> string \<Rightarrow> string option" where
  "commit_to_link get_vcs_viewer_for_url repo_url commit =
     (case get_vcs_viewer_for_url repo_url of
        None \<Rightarrow> None
      | Some vcs \<Rightarrow>
          if CHR '':'' \<notin> set commit then Some (get_source_url_for_revision vcs commit)
          else
            (let commit_parts = str_split CHR '':'' commit in
             if length commit_parts \<noteq> 2 then None
             else
               (case commit_parts of
                  [start, end'] \<Rightarrow>
                    if start = ''unknown'' then None
                    else Some (get_source_url_for_revision_diff vcs start end')
                | _ \<Rightarrow> None)))"

subsection \<open>The Datastore kinds\<close>

text \<open>
  The package \<open>osv\<close> (the \<open>Bug\<close> and \<open>PackageTagInfo\<close> models, the enumerations and
  the conversion to a dictionary) is not part of the sources at hand.

  Modelled from the spec: the properties of a \<open>Bug\<close> entity and the values of
  \<open>BugStatus\<close> and \<open>SourceOfTruth\<close>, as the data model of the specification lists them
  and as the handlers read them. \<open>db_id\<close> is the identifier that \<open>get_by_id\<close> looks up;
  \<open>other_properties\<close> stands for every stored property the handlers do not read.
\<close>

datatype bug_status = UNPROCESSED | PROCESSED | INVALID

datatype source_of_truth = INTERNAL | EXTERNAL

record 'e bug =
  db_id :: string
  status :: bug_status
  public :: bool
  is_fixed :: bool
  has_affected :: bool
  ecosystem :: "string option"
  search_indices :: "string list"
  last_modified :: int
  source_of_truth :: source_of_truth
  source :: "string option"
  other_properties :: 'e

record package_tag_info =
  package :: string
  tag_ecosystem :: string
  tag :: string
  bugs :: "string list"

text \<open>
  The store holds the entities of each kind, listed in the order of their keys.
\<close>

record 'e datastore =
  bug_entities :: "'e bug list"
  package_tag_entities :: "package_tag_info list"

subsection \<open>Queries of the Datastore client library\<close>

text \<open>
  A query is a conjunction of filter nodes and an optional sort order. The nodes are the
  comparisons the handlers build; \<open>search_indices\<close> is a repeated property, for which
  \<open>==\<close> holds when one of its values is equal.
\<close>

datatype filter_node =
    StatusEq bug_status
  | PublicEq bool
  | SearchIndicesEq string
  | HasAffectedEq bool
  | EcosystemEq string

datatype ordering = Unordered | LastModifiedDescending

record query =
  filters :: "filter_node list"
  orders :: ordering

fun node_matches :: "'e bug \<Rightarrow> filter_node \<Rightarrow> bool" where
  "node_matches b (StatusEq s) \<longleftrightarrow> status b = s"
| "node_matches b (PublicEq p) \<longleftrightarrow> public b = p"
| "node_matches b (SearchIndicesEq t) \<longleftrightarrow> t \<in> set (search_indices b)"
| "node_matches b (HasAffectedEq h) \<longleftrightarrow> has_affected b = h"
| "node_matches b (EcosystemEq e) \<longleftrightarrow> ecosystem b = Some e"

definition bug_query :: "filter_node list \<Rightarrow> query" where
  "bug_query nodes = \<lparr>filters = nodes, orders = Unordered\<rparr>"

definition query_filter :: "query \<Rightarrow> filter_node \<Rightarrow> query" where
  "query_filter q node = q\<lparr>filters := filters q @ [node]\<rparr>"

definition query_order :: "query \<Rightarrow> ordering \<Rightarrow> query" where
  "query_order q ord = q\<lparr>orders := ord\<rparr>"

text \<open>
  The results of a query: the matching entities, in key order when the query has no
  sort order; with \<open>-last_modified\<close> as the sort order, newest first, entities with the
  same time in key order (the sort is stable).
\<close>

definition run_query :: "'e bug list \<Rightarrow> query \<Rightarrow> 'e bug list" where
  "run_query store q =
     (let matching = filter (\<lambda>b. list_all (node_matches b) (filters q)) store
      in case orders q of
           Unordered \<Rightarrow> matching
         | LastModifiedDescending \<Rightarrow> sort_key (\<lambda>b. - last_modified b) matching)"

definition query_count :: "'e bug list \<Rightarrow> query \<Rightarrow> int" where
  "query_count store q = int (length (run_query store q))"

text \<open>
  \<open>fetch_page(page_size, offset)\<close> skips \<open>offset\<close> results and returns at most
  \<open>page_size\<close> of the following ones. Datastore requires the offset of a query to be
  at least 0 and rejects the query otherwise.
\<close>

definition fetch_page :: "'e bug list \<Rightarrow> query \<Rightarrow> int \<Rightarrow> int \<Rightarrow> exn + 'e bug list" where
  "fetch_page store q page_size offset =
     (if offset < 0 then Inl InvalidArgument
      else Inr (take (nat page_size) (drop (nat offset) (run_query store q))))"

definition get_by_id :: "'e bug list \<Rightarrow> string \<Rightarrow> 'e bug option" where
  "get_by_id store vuln_id = find (\<lambda>b. db_id b = vuln_id) store"

subsection \<open>Responses\<close>

text \<open>
  Modelled from the spec: the shape of the dictionary that
  \<open>osv.vulnerability_to_dict(bug.to_vulnerability())\<close> returns, as far as the handlers
  touch it. A key that may be missing is an option. \<open>affects_ranges\<close> is
  \<open>response['affects']['ranges']\<close>, \<open>None\<close> when one of the two keys is missing; a
  range has a type, and may have a repository URL and the two commit references;
  \<open>other_keys\<close> stands for every other key. \<open>introduced_link\<close> and \<open>fixed_link\<close> are
  \<open>None\<close> while the key is missing and \<open>Some l\<close> once it is set to \<open>l\<close>, which is
  itself \<open>None\<close> or a URL.
\<close>

record affected_range =
  range_id :: "nat option"
  range_type :: string
  repo :: "string option"
  introduced :: "string option"
  fixed :: "string option"
  introduced_link :: "string option option"
  fixed_link :: "string option option"

record 'd response =
  other_keys :: 'd
  affects_ranges :: "affected_range list option"
  isFixed :: "bool option"
  invalid :: "bool option"
  response_source :: "string option"
  source_link :: "string option"

text \<open>
  The functions of \<open>osv\<close> and \<open>source_mapper\<close> that the handlers call are parameters
  of the model. A source repository is read for its \<open>link\<close> only.
\<close>

record source_repository =
  link :: "string option"

record ('e, 'd) collaborators =
  vulnerability_to_dict :: "'e bug \<Rightarrow> 'd response"
  get_source_repository :: "string option \<Rightarrow> source_repository option"
  source_path :: "source_repository \<Rightarrow> 'e bug \<Rightarrow> string"
  get_vcs_viewer_for_url :: "string \<Rightarrow> vcs_viewer option"

text \<open>The body of the loop of \<open>add_links\<close>, for the range at position \<open>i\<close>.\<close>

definition add_links_range ::
  "(string \<Rightarrow> vcs_viewer option) \<Rightarrow> nat \<Rightarrow> affected_range \<Rightarrow> affected_range" where
  "add_links_range get_vcs i affected0 =
     (let affected = affected0\<lparr>range_id := Some i\<rparr> in
      if range_type affected \<noteq> ''GIT'' then affected
      else
        (case repo affected of
           None \<Rightarrow> affected
         | Some repo_url \<Rightarrow>
             if repo_url = [] then affected
             else
               (let affected1 =
                      (case introduced affected of
                         None \<Rightarrow> affected
                       | Some c \<Rightarrow>
                           if c = [] then affected
                           else affected\<lparr>introduced_link :=
                                  Some (commit_to_link get_vcs repo_url c)\<rparr>)
                in case fixed affected1 of
                     None \<Rightarrow> affected1
                   | Some c \<Rightarrow>
                       if c = [] then affected1
                       else affected1\<lparr>fixed_link :=
                              Some (commit_to_link get_vcs repo_url c)\<rparr>)))"

definition add_links ::
  "(string \<Rightarrow> vcs_viewer option) \<Rightarrow> 'd response \<Rightarrow> 'd response" where
  "add_links get_vcs response =
     (case affects_ranges response of
        None \<Rightarrow> response
      | Some ranges \<Rightarrow>
          response\<lparr>affects_ranges :=
            Some (map (\<lambda>(i, affected). add_links_range get_vcs i affected)
                    (enumerate 0 ranges))\<rparr>)"

definition add_source_info ::
  "('e, 'd) collaborators \<Rightarrow> 'e bug \<Rightarrow> 'd response \<Rightarrow> 'd response" where
  "add_source_info osv bug response =
     (if source_of_truth bug = INTERNAL
      then response\<lparr>response_source := Some ''INTERNAL''\<rparr>
      else
        (case get_source_repository osv (source bug) of
           None \<Rightarrow> response
         | Some source_repo \<Rightarrow>
             (case link source_repo of
                None \<Rightarrow> response
              | Some l \<Rightarrow>
                  if l = [] then response
                  else
                    (let path = source_path osv source_repo bug
                     in response\<lparr>response_source := Some (l @ path),
                                 source_link := Some (l @ path)\<rparr>))))"

definition bug_to_response ::
  "('e, 'd) collaborators \<Rightarrow> 'e bug \<Rightarrow> bool \<Rightarrow> 'd response" where
  "bug_to_response osv bug detailed =
     (let response = (vulnerability_to_dict osv bug)
            \<lparr>isFixed := Some (is_fixed bug),
             invalid := Some (status bug = INVALID)\<rparr>
      in if detailed
         then add_source_info osv bug (add_links (get_vcs_viewer_for_url osv) response)
         else response)"

subsection \<open>The handlers\<close>

definition PAGE_SIZE :: int where
  "PAGE_SIZE = 16"

text \<open>
  \<open>ecosystems_handler\<close>. The projection query with \<open>distinct=True\<close> has no filter: it
  yields one result for each distinct value of \<open>ecosystem\<close> among all \<open>Bug\<close> entities.
\<close>

definition ecosystems_handler :: "'e bug list \<Rightarrow> string list outcome" where
  "ecosystems_handler store =
     (let query = remdups (map ecosystem store)
      in Ok (sort (concat (map (\<lambda>bug_ecosystem.
                case bug_ecosystem of
                  None \<Rightarrow> []
                | Some e \<Rightarrow> if e = [] then [] else [e]) query))))"

record 'd results =
  total :: int
  items :: "'d response list"

definition query_handler ::
  "('e, 'd) collaborators \<Rightarrow> 'e bug list \<Rightarrow> params \<Rightarrow> 'd results outcome" where
  "query_handler osv store args =
     (let search_string = args ''search'' in
      case (case args ''page'' of None \<Rightarrow> Inr 1 | Some s \<Rightarrow> py_int s) of
        Inl e \<Rightarrow> Raise e
      | Inr page \<Rightarrow>
          (let affected_only = (args ''affected_only'' = Some ''true'');
               ecosystem_arg = args ''ecosystem'';
               query = bug_query [StatusEq PROCESSED, PublicEq True];
               query =
                 (case search_string of
                    None \<Rightarrow> query
                  | Some s \<Rightarrow>
                      if s = [] then query
                      else query_filter query (SearchIndicesEq (lower s)));
               query =
                 (if affected_only then query_filter query (HasAffectedEq True)
                  else query);
               query =
                 (case ecosystem_arg of
                    None \<Rightarrow> query
                  | Some e \<Rightarrow>
                      if e = [] then query else query_filter query (EcosystemEq e));
               query = query_order query LastModifiedDescending;
               total_count = query_count store query
           in case fetch_page store query PAGE_SIZE ((page - 1) * PAGE_SIZE) of
                Inl e \<Rightarrow> Raise e
              | Inr page_bugs \<Rightarrow>
                  Ok \<lparr>total = total_count,
                      items = map (\<lambda>bug. bug_to_response osv bug False) page_bugs\<rparr>))"

text \<open>
  \<open>package_handler\<close>. \<open>bugs > ''\<close> on the repeated property holds when one of its
  values is a non-empty string. \<open>sort(key, reverse=True)\<close> is stable: rows with the same
  tag keep their order.
\<close>

definition package_handler ::
  "package_tag_info list \<Rightarrow> params \<Rightarrow> (string \<times> string list) list outcome" where
  "package_handler store args =
     (case args ''package'' of
        None \<Rightarrow> Abort 400
      | Some package_path \<Rightarrow>
          if package_path = [] then Abort 400
          else
            (case str_split1 CHR ''/'' package_path of
               [ecosystem_part, package_part] \<Rightarrow>
                 (let query = filter (\<lambda>t. package t = package_part \<and>
                                tag_ecosystem t = ecosystem_part \<and>
                                list_ex (\<lambda>b. [] < b) (bugs t)) store;
                      tags_with_bugs = map (\<lambda>tag_info. (tag tag_info, bugs tag_info)) query
                  in Ok (rev (sort_key fst (rev tags_with_bugs))))
             | _ \<Rightarrow> Abort 400))"

definition vulnerability_handler ::
  "('e, 'd) collaborators \<Rightarrow> 'e bug list \<Rightarrow> params \<Rightarrow> 'd response outcome" where
  "vulnerability_handler osv store args =
     (case args ''id'' of
        None \<Rightarrow> Abort 400
      | Some vuln_id \<Rightarrow>
          if vuln_id = [] then Abort 400
          else
            (case get_by_id store vuln_id of
               None \<Rightarrow> Abort 404
             | Some bug \<Rightarrow>
                 if status bug = UNPROCESSED then Abort 404
                 else if \<not> public bug then Abort 403
                 else Ok (bug_to_response osv bug True)))"

subsection \<open>The search predicate of the specification\<close>

text \<open>
  This definition follows the words of the specification (section 4.2), not the code:
  the base predicate is always \<open>status == PROCESSED AND public == true\<close>; a search
  token that is present is lower-cased and must be a member of \<open>searchIndices\<close>;
  \<open>affectedOnly\<close> requires \<open>hasAffected\<close>; an ecosystem that is present must match
  exactly; an absent or empty filter is left out.
\<close>

definition search_predicate ::
  "string option \<Rightarrow> bool \<Rightarrow> string option \<Rightarrow> 'e bug \<Rightarrow> bool" where
  "search_predicate searchToken affectedOnly ecosystem_filter b \<longleftrightarrow>
     status b = PROCESSED \<and> public b \<and>
     (case searchToken of
        None \<Rightarrow> True
      | Some t \<Rightarrow> t = [] \<or> lower t \<in> set (search_indices b)) \<and>
     (\<not> affectedOnly \<or> has_affected b) \<and>
     (case ecosystem_filter of
        None \<Rightarrow> True
      | Some e \<Rightarrow> e = [] \<or> ecosystem b = Some e)"

subsection \<open>The list of ecosystems of the specification\<close>

text \<open>
  This definition follows the words of the specification (section 4.2), not the code:
  the distinct non-empty \<open>ecosystem\<close> values over the \<open>PROCESSED\<close> records, sorted
  ascending.
\<close>

definition listEcosystems :: "'e bug list \<Rightarrow> string list" where
  "listEcosystems store =
     sort (remdups (concat (map (\<lambda>b.
       if status b = PROCESSED
       then (case ecosystem b of None \<Rightarrow> [] | Some e \<Rightarrow> if e = [] then [] else [e])
       else []) store)))"

subsection \<open>Requests and the rate limit\<close>

text \<open>
  A request that Flask has routed to one of the five view functions of the blueprint.
  A header is looked up under the name the handler uses.
\<close>

datatype route = Index | Ecosystems | Query | Package | Vulnerability

record request =
  req_endpoint :: route
  req_args :: params
  req_headers :: params

datatype 'd body =
    Html string
  | EcosystemsJson "string list"
  | QueryJson "'d results"
  | PackageJson "(string \<times> string list) list"
  | VulnerabilityJson "'d response"

definition dispatch ::
  "('e, 'd) collaborators \<Rightarrow> 'e datastore \<Rightarrow> request \<Rightarrow> 'd body outcome" where
  "dispatch osv store req =
     (case req_endpoint req of
        Index \<Rightarrow> Ok (Html ''index.html'')
      | Ecosystems \<Rightarrow> map_outcome EcosystemsJson (ecosystems_handler (bug_entities store))
      | Query \<Rightarrow> map_outcome QueryJson (query_handler osv (bug_entities store) (req_args req))
      | Package \<Rightarrow>
          map_outcome PackageJson (package_handler (package_tag_entities store) (req_args req))
      | Vulnerability \<Rightarrow>
          map_outcome VulnerabilityJson
            (vulnerability_handler osv (bug_entities store) (req_args req)))"

text \<open>\<open>_is_prod\<close>, from the value of the environment variable \<open>GAE_ENV\<close>.\<close>

definition is_prod :: "string option \<Rightarrow> bool" where
  "is_prod gae_env =
     (let v = (case gae_env of None \<Rightarrow> [] | Some s \<Rightarrow> s)
      in take (length ''standard'') v = ''standard'')"

text \<open>
  The module \<open>rate_limiter\<close> is not part of the sources at hand: the method
  \<open>check_request\<close> of the limiter is a parameter, a function of the state of the
  limiter (its counters) and the client address that returns the verdict and the new
  state. \<open>check_rate_limit\<close> returns the status it aborts with, if it does.
\<close>

definition check_rate_limit ::
  "('l \<Rightarrow> string \<Rightarrow> bool \<times> 'l) \<Rightarrow> 'l \<Rightarrow> request \<Rightarrow> nat option \<times> 'l" where
  "check_rate_limit check_request limiter req =
     (let ip_addr = (case req_headers req ''X-Appengine-User-Ip'' of
                       None \<Rightarrow> ''unknown''
                     | Some a \<Rightarrow> a);
          (admitted, limiter') = check_request limiter ip_addr
      in (if \<not> admitted then Some 429 else None, limiter'))"

text \<open>
  One request through the blueprint. In production \<open>check_rate_limit\<close> is registered
  with \<open>before_request\<close>, so it runs first, and the view function runs only when it
  has not aborted. Outside production nothing is registered.
\<close>

definition handle_request ::
  "string option \<Rightarrow> ('l \<Rightarrow> string \<Rightarrow> bool \<times> 'l) \<Rightarrow> ('e, 'd) collaborators \<Rightarrow>
   'l \<Rightarrow> 'e datastore \<Rightarrow> request \<Rightarrow> 'd body outcome \<times> 'l" where
  "handle_request gae_env check_request osv limiter store req =
     (if is_prod gae_env
      then
        (case check_rate_limit check_request limiter req of
           (Some code, limiter') \<Rightarrow> (Abort code, limiter')
         | (None, limiter') \<Rightarrow> (dispatch osv store req, limiter'))
      else (dispatch osv store req, limiter))"

subsection \<open>Example data\<close>

text \<open>
  A small store and trivial collaborators, on which the theorems below are run: the
  dictionary of a bug holds its identifier and no ranges, no source repository is
  known, and one repository host has a viewer.
\<close>

definition example_bug ::
  "string \<Rightarrow> bug_status \<Rightarrow> bool \<Rightarrow> string option \<Rightarrow> int \<Rightarrow> unit bug" where
  "example_bug i st pub eco modified =
     \<lparr>db_id = i, status = st, public = pub, is_fixed = False, has_affected = True,
      ecosystem = eco, search_indices = [''foo''], last_modified = modified,
      source_of_truth = INTERNAL, source = None, other_properties = ()\<rparr>"

definition example_osv :: "(unit, string) collaborators" where
  "example_osv =
     \<lparr>vulnerability_to_dict =
        (\<lambda>b. \<lparr>other_keys = db_id b, affects_ranges = None, isFixed = None,
               invalid = None, response_source = None, source_link = None\<rparr>),
      get_source_repository = (\<lambda>s. None),
      source_path = (\<lambda>r b. []),
      get_vcs_viewer_for_url = (\<lambda>u. None)\<rparr>"

definition example_store :: "unit bug list" where
  "example_store =
     [example_bug ''OSV-1'' PROCESSED True (Some ''PyPI'') 5,
      example_bug ''OSV-2'' UNPROCESSED True (Some ''Go'') 9,
      example_bug ''OSV-3'' PROCESSED False None 7,
      example_bug ''OSV-4'' INVALID True (Some ''npm'') 1,
      example_bug ''OSV-5'' PROCESSED True (Some ''PyPI'') 8]"

section \<open>Properties\<close>

subsection \<open>Splitting\<close>

lemma str_split_not_Nil: "str_split c xs \<noteq> []"
  by (induction xs) (auto split: list.splits)

lemma length_str_split: "length (str_split c xs) = Suc (count_list xs c)"
  by (induction xs) (auto split: list.splits simp: str_split_not_Nil)

lemma str_split_no_sep: "c \<notin> set xs \<Longrightarrow> str_split c xs = [xs]"
  by (induction xs) auto

lemma str_split_append_sep:
  "c \<notin> set xs \<Longrightarrow> str_split c (xs @ c # ys) = xs # str_split c ys"
  by (induction xs) auto

lemma str_split_one_sep:
  "c \<notin> set xs \<Longrightarrow> c \<notin> set ys \<Longrightarrow> str_split c (xs @ c # ys) = [xs, ys]"
  by (simp add: str_split_append_sep str_split_no_sep)

lemma count_list_0_iff_notin: "count_list xs c = 0 \<longleftrightarrow> c \<notin> set xs"
  by (induction xs) auto

subsection \<open>The query handler, unfolded\<close>

lemma search_predicate_nodes:
  "search_predicate search_string affected_only eco =
     (\<lambda>b. list_all (node_matches b)
        ([StatusEq PROCESSED, PublicEq True]
         @ (case search_string of
              None \<Rightarrow> []
            | Some s \<Rightarrow> if s = [] then [] else [SearchIndicesEq (lower s)])
         @ (if affected_only then [HasAffectedEq True] else [])
         @ (case eco of None \<Rightarrow> [] | Some e \<Rightarrow> if e = [] then [] else [EcosystemEq e])))"
  by (auto simp: fun_eq_iff search_predicate_def split: option.splits)

lemma query_handler_unfold:
  "query_handler osv store args =
    (case (case args ''page'' of None \<Rightarrow> Inr 1 | Some s \<Rightarrow> py_int s) of
       Inl e \<Rightarrow> Raise e
     | Inr page \<Rightarrow>
         if page < 1 then Raise InvalidArgument
         else Ok \<lparr>total = int (length (filter (search_predicate (args ''search'')
                 (args ''affected_only'' = Some ''true'') (args ''ecosystem'')) store)),
        items = map (\<lambda>bug. bug_to_response osv bug False)
          (take (nat PAGE_SIZE) (drop (nat ((page - 1) * PAGE_SIZE))
            (sort_key (\<lambda>b. - last_modified b)
               (filter (search_predicate (args ''search'')
                 (args ''affected_only'' = Some ''true'') (args ''ecosystem'')) store))))\<rparr>)"
proof (cases "case args ''page'' of None \<Rightarrow> Inr 1 | Some s \<Rightarrow> py_int s")
  case (Inl e)
  then show ?thesis by (simp add: query_handler_def)
next
  case (Inr page)
  have off: "(page - 1) * PAGE_SIZE < 0 \<longleftrightarrow> page < 1"
    by (simp add: PAGE_SIZE_def)
  show ?thesis
    unfolding search_predicate_nodes
    by (cases "args ''search''"; cases "args ''ecosystem''")
       (simp_all add: Inr off query_handler_def Let_def fetch_page_def query_count_def
          run_query_def query_order_def query_filter_def bug_query_def)
qed






subsection \<open>Ordering, pagination and the total\<close>


subsection \<open>Commit links\<close>

text \<open>
  C2. \<open>_commit_to_link\<close> gives no link when no viewer resolves for the URL. With a
  viewer: a reference without \<open>:\<close> gives the viewer's single-revision URL; a reference
  with more than one \<open>:\<close> gives no link; a reference \<open>start:end\<close> with exactly one
  \<open>:\<close> gives no link when \<open>start\<close> is the literal \<open>unknown\<close>, and the viewer's
  revision-diff URL for \<open>(start, end)\<close> otherwise.
\<close>

theorem commit_to_link_cases:
  "(get_vcs repo_url = None \<longrightarrow> commit_to_link get_vcs repo_url commit = None) \<and>
   (get_vcs repo_url = Some vcs \<longrightarrow>
      (count_list commit CHR '':'' = 0 \<longrightarrow>
         commit_to_link get_vcs repo_url commit
           = Some (get_source_url_for_revision vcs commit)) \<and>
      (1 < count_list commit CHR '':'' \<longrightarrow>
         commit_to_link get_vcs repo_url commit = None) \<and>
      (count_list commit CHR '':'' = 1 \<longrightarrow>
         (\<exists>start end'. commit = start @ CHR '':'' # end' \<and>
            CHR '':'' \<notin> set start \<and> CHR '':'' \<notin> set end' \<and>
            commit_to_link get_vcs repo_url commit
              = (if start = ''unknown'' then None
                 else Some (get_source_url_for_revision_diff vcs start end')))))"
proof (intro conjI impI)
  assume "get_vcs repo_url = None"
  then show "commit_to_link get_vcs repo_url commit = None"
    by (simp add: commit_to_link_def)
next
  assume "get_vcs repo_url = Some vcs" and "count_list commit CHR '':'' = 0"
  then show "commit_to_link get_vcs repo_url commit
               = Some (get_source_url_for_revision vcs commit)"
    by (simp add: commit_to_link_def count_list_0_iff_notin)
next
  assume v: "get_vcs repo_url = Some vcs" and many: "1 < count_list commit CHR '':''"
  from many have "CHR '':'' \<in> set commit"
    using count_list_0_iff_notin [of commit "CHR '':''"] by auto
  moreover from many have "length (str_split CHR '':'' commit) \<noteq> 2"
    by (simp add: length_str_split)
  ultimately show "commit_to_link get_vcs repo_url commit = None"
    using v by (simp add: commit_to_link_def)
next
  assume v: "get_vcs repo_url = Some vcs" and one: "count_list commit CHR '':'' = 1"
  from one have mem: "CHR '':'' \<in> set commit"
    using count_list_0_iff_notin [of commit "CHR '':''"] by auto
  then obtain start end' where
    c: "commit = start @ CHR '':'' # end'" and s: "CHR '':'' \<notin> set start"
    by (auto dest: split_list_first)
  from one c s have e: "CHR '':'' \<notin> set end'"
    by (simp add: count_list_0_iff_notin [symmetric])
  have "str_split CHR '':'' commit = [start, end']"
    using c s e by (simp add: str_split_one_sep)
  with v mem have "commit_to_link get_vcs repo_url commit
      = (if start = ''unknown'' then None
         else Some (get_source_url_for_revision_diff vcs start end'))"
    by (simp add: commit_to_link_def)
  with c s e show "\<exists>start end'. commit = start @ CHR '':'' # end' \<and>
      CHR '':'' \<notin> set start \<and> CHR '':'' \<notin> set end' \<and>
      commit_to_link get_vcs repo_url commit
        = (if start = ''unknown'' then None
           else Some (get_source_url_for_revision_diff vcs start end'))"
    by blast
qed

theorem commit_to_link_cases_witness:
  "commit_to_link (\<lambda>u. None) ''svn://x/y'' ''abc123'' = None \<and>
   commit_to_link
     (\<lambda>u. Some \<lparr>get_source_url_for_revision = (\<lambda>r. u @ ''/commit/'' @ r),
                get_source_url_for_revision_diff = (\<lambda>a b. u @ ''/compare/'' @ a @ ''..'' @ b)\<rparr>)
     ''https://github.com/x/y'' ''abc123'' = Some ''https://github.com/x/y/commit/abc123'' \<and>
   commit_to_link
     (\<lambda>u. Some \<lparr>get_source_url_for_revision = (\<lambda>r. u @ ''/commit/'' @ r),
                get_source_url_for_revision_diff = (\<lambda>a b. u @ ''/compare/'' @ a @ ''..'' @ b)\<rparr>)
     ''https://github.com/x/y'' ''a:b:c'' = None \<and>
   (\<exists>start end'. ''unknown:def456'' = start @ CHR '':'' # end' \<and>
      CHR '':'' \<notin> set start \<and> CHR '':'' \<notin> set end' \<and>
      commit_to_link
        (\<lambda>u. Some \<lparr>get_source_url_for_revision = (\<lambda>r. u @ ''/commit/'' @ r),
                   get_source_url_for_revision_diff = (\<lambda>a b. u @ ''/compare/'' @ a @ ''..'' @ b)\<rparr>)
        ''https://github.com/x/y'' ''unknown:def456''
        = (if start = ''unknown'' then None
           else Some (get_source_url_for_revision_diff
                  \<lparr>get_source_url_for_revision = (\<lambda>r. ''https://github.com/x/y'' @ ''/commit/'' @ r),
                   get_source_url_for_revision_diff =
                     (\<lambda>a b. ''https://github.com/x/y'' @ ''/compare/'' @ a @ ''..'' @ b)\<rparr>
                  start end')))"
proof -
  let ?gv = "\<lambda>u. Some \<lparr>get_source_url_for_revision = (\<lambda>r. u @ ''/commit/'' @ r),
                get_source_url_for_revision_diff = (\<lambda>a b. u @ ''/compare/'' @ a @ ''..'' @ b)\<rparr>"
  let ?v = "\<lparr>get_source_url_for_revision = (\<lambda>r. ''https://github.com/x/y'' @ ''/commit/'' @ r),
             get_source_url_for_revision_diff =
               (\<lambda>a b. ''https://github.com/x/y'' @ ''/compare/'' @ a @ ''..'' @ b)\<rparr>"
  have 1: "commit_to_link (\<lambda>u. None) ''svn://x/y'' ''abc123'' = None"
    using commit_to_link_cases [of "\<lambda>u. None" "''svn://x/y''" "''abc123''"] by simp
  have 2: "commit_to_link ?gv ''https://github.com/x/y'' ''abc123''
             = Some ''https://github.com/x/y/commit/abc123''"
    using commit_to_link_cases [of ?gv "''https://github.com/x/y''" "''abc123''" ?v] by simp
  have 3: "commit_to_link ?gv ''https://github.com/x/y'' ''a:b:c'' = None"
    using commit_to_link_cases [of ?gv "''https://github.com/x/y''" "''a:b:c''" ?v] by simp
  have 4: "\<exists>start end'. ''unknown:def456'' = start @ CHR '':'' # end' \<and>
      CHR '':'' \<notin> set start \<and> CHR '':'' \<notin> set end' \<and>
      commit_to_link ?gv ''https://github.com/x/y'' ''unknown:def456''
        = (if start = ''unknown'' then None
           else Some (get_source_url_for_revision_diff ?v start end'))"
    using commit_to_link_cases [of ?gv "''https://github.com/x/y''" "''unknown:def456''" ?v]
    by simp
  from 1 2 3 4 show ?thesis by blast
qed


subsection \<open>The filters of a search\<close>


subsection \<open>The base predicate of a search\<close>





subsection \<open>The list of ecosystems\<close>

lemma set_ecosystems:
  "set (concat (map (\<lambda>bug_ecosystem.
           case bug_ecosystem of None \<Rightarrow> [] | Some e \<Rightarrow> if e = [] then [] else [e]) xs))
     = {e. e \<noteq> [] \<and> Some e \<in> set xs}"
  by (induction xs) (auto split: option.splits)

lemma distinct_ecosystems:
  "distinct xs \<Longrightarrow> distinct (concat (map (\<lambda>bug_ecosystem.
           case bug_ecosystem of None \<Rightarrow> [] | Some e \<Rightarrow> if e = [] then [] else [e]) xs))"
  by (induction xs) (auto split: option.splits simp: set_ecosystems)

text \<open>
  C4 (as the code has it). \<open>ecosystems_handler\<close> returns the distinct non-empty
  \<open>ecosystem\<close> values of all records of the store, whatever their status and
  visibility, sorted in ascending order. The query has no filter on the status.
\<close>

theorem ecosystems_handler_all_records:
  "\<exists>es. ecosystems_handler store = Ok es \<and> sorted es \<and> distinct es \<and>
      set es = {e. e \<noteq> [] \<and> (\<exists>b \<in> set store. ecosystem b = Some e)}"
proof -
  define query where "query = remdups (map ecosystem store)"
  define es where "es = sort (concat (map (\<lambda>bug_ecosystem.
           case bug_ecosystem of None \<Rightarrow> [] | Some e \<Rightarrow> if e = [] then [] else [e]) query))"
  have run: "ecosystems_handler store = Ok es"
    by (simp add: ecosystems_handler_def es_def query_def)
  have srt: "sorted es"
    by (simp add: es_def)
  have "distinct query"
    by (simp add: query_def)
  then have dst: "distinct es"
    unfolding es_def distinct_sort by (rule distinct_ecosystems)
  have "set es = {e. e \<noteq> [] \<and> Some e \<in> set query}"
    unfolding es_def set_sort by (rule set_ecosystems)
  also have "\<dots> = {e. e \<noteq> [] \<and> (\<exists>b \<in> set store. ecosystem b = Some e)}"
    unfolding query_def by force
  finally show ?thesis
    using run srt dst by blast
qed

theorem ecosystems_handler_all_records_witness:
  "\<exists>es. ecosystems_handler example_store = Ok es \<and> sorted es \<and> distinct es \<and>
      set es = {e. e \<noteq> [] \<and> (\<exists>b \<in> set example_store. ecosystem b = Some e)}"
  using ecosystems_handler_all_records [of example_store] by simp

text \<open>
  The claim as the specification states it, over \<open>PROCESSED\<close> records only, fails on a
  store whose only record is unprocessed: the handler lists its ecosystem.
\<close>

theorem ecosystems_handler_unprocessed_counterexample:
  "ecosystems_handler [example_bug ''OSV-2'' UNPROCESSED True (Some ''Go'') 9] = Ok [''Go''] \<and>
   listEcosystems [example_bug ''OSV-2'' UNPROCESSED True (Some ''Go'') 9] = []"
  by (simp add: ecosystems_handler_def listEcosystems_def example_bug_def)

subsection \<open>A malformed page\<close>

text \<open>
  C5. The claim is that a page that is not a number, or is below 1, ends the request
  with status 400 before the store is queried. The handler has no such check: the
  conversion of \<open>abc\<close> raises \<open>ValueError\<close>, which leaves the handler, and page \<open>0\<close>
  reaches the store with a negative offset. Neither request is aborted with 400.
\<close>

theorem query_handler_malformed_page:
  "query_handler osv store [''page'' \<mapsto> ''abc''] = Raise ValueError \<and>
   query_handler osv store [''page'' \<mapsto> ''0''] \<noteq> Abort 400"
proof -
  have "py_int ''abc'' = Inl ValueError"
    by (simp add: py_int_def strip_def is_space_def digit_value_def)
  moreover have "py_int ''0'' = Inr 0"
    by (simp add: py_int_def strip_def is_space_def digit_value_def)
  ultimately show ?thesis
    by (simp add: query_handler_unfold)
qed

subsection \<open>The single-record fetch\<close>

lemma get_by_id_None: "get_by_id store vuln_id = None \<longleftrightarrow> (\<forall>b \<in> set store. db_id b \<noteq> vuln_id)"
  by (auto simp: get_by_id_def find_None_iff)

lemma get_by_id_Some: "get_by_id store vuln_id = Some bug \<Longrightarrow> bug \<in> set store \<and> db_id bug = vuln_id"
  by (auto simp: get_by_id_def find_Some_iff)

text \<open>
  C6. The checks of \<open>vulnerability_handler\<close>, in their order: a missing (or empty)
  \<open>id\<close> gives 400; an identifier with no record gives 404; an unprocessed record
  gives 404, public or not; a processed or invalid record that is not public gives 403;
  any other record gives its detailed response.
\<close>

theorem vulnerability_handler_outcomes:
  "(args ''id'' = None \<or> args ''id'' = Some [] \<longrightarrow>
      vulnerability_handler osv store args = Abort 400) \<and>
   (args ''id'' = Some vuln_id \<and> vuln_id \<noteq> [] \<longrightarrow>
      (get_by_id store vuln_id = None \<longrightarrow>
         vulnerability_handler osv store args = Abort 404) \<and>
      (get_by_id store vuln_id = Some bug \<longrightarrow>
         (status bug = UNPROCESSED \<longrightarrow>
            vulnerability_handler osv store args = Abort 404) \<and>
         (status bug \<noteq> UNPROCESSED \<and> \<not> public bug \<longrightarrow>
            vulnerability_handler osv store args = Abort 403) \<and>
         (status bug \<noteq> UNPROCESSED \<and> public bug \<longrightarrow>
            vulnerability_handler osv store args = Ok (bug_to_response osv bug True))))"
  by (auto simp: vulnerability_handler_def)

theorem vulnerability_handler_outcomes_witness:
  "vulnerability_handler example_osv example_store Map.empty = Abort 400 \<and>
   vulnerability_handler example_osv example_store [''id'' \<mapsto> ''OSV-9''] = Abort 404 \<and>
   vulnerability_handler example_osv example_store [''id'' \<mapsto> ''OSV-2''] = Abort 404 \<and>
   vulnerability_handler example_osv example_store [''id'' \<mapsto> ''OSV-3''] = Abort 403 \<and>
   vulnerability_handler example_osv example_store [''id'' \<mapsto> ''OSV-1'']
     = Ok (bug_to_response example_osv
             (example_bug ''OSV-1'' PROCESSED True (Some ''PyPI'') 5) True)"
proof -
  have g: "get_by_id example_store ''OSV-9'' = None"
    "get_by_id example_store ''OSV-2''
       = Some (example_bug ''OSV-2'' UNPROCESSED True (Some ''Go'') 9)"
    "get_by_id example_store ''OSV-3'' = Some (example_bug ''OSV-3'' PROCESSED False None 7)"
    "get_by_id example_store ''OSV-1''
       = Some (example_bug ''OSV-1'' PROCESSED True (Some ''PyPI'') 5)"
    by (simp_all add: get_by_id_def example_store_def example_bug_def)
  have s: "status (example_bug ''OSV-2'' UNPROCESSED True (Some ''Go'') 9) = UNPROCESSED"
    "status (example_bug ''OSV-3'' PROCESSED False None 7) = PROCESSED"
    "\<not> public (example_bug ''OSV-3'' PROCESSED False None 7)"
    "status (example_bug ''OSV-1'' PROCESSED True (Some ''PyPI'') 5) = PROCESSED"
    "public (example_bug ''OSV-1'' PROCESSED True (Some ''PyPI'') 5)"
    by (simp_all add: example_bug_def)
  have 1: "vulnerability_handler example_osv example_store Map.empty = Abort 400"
    using vulnerability_handler_outcomes [where args = Map.empty and osv = example_osv
        and store = example_store]
    by simp
  have 2: "vulnerability_handler example_osv example_store [''id'' \<mapsto> ''OSV-9''] = Abort 404"
    using vulnerability_handler_outcomes [where args = "[''id'' \<mapsto> ''OSV-9'']"
        and osv = example_osv and store = example_store and vuln_id = "''OSV-9''"] g(1)
    by simp
  have 3: "vulnerability_handler example_osv example_store [''id'' \<mapsto> ''OSV-2''] = Abort 404"
    using vulnerability_handler_outcomes [where args = "[''id'' \<mapsto> ''OSV-2'']"
        and osv = example_osv and store = example_store and vuln_id = "''OSV-2''"
        and bug = "example_bug ''OSV-2'' UNPROCESSED True (Some ''Go'') 9"] g(2) s(1)
    by simp
  have 4: "vulnerability_handler example_osv example_store [''id'' \<mapsto> ''OSV-3''] = Abort 403"
    using vulnerability_handler_outcomes [where args = "[''id'' \<mapsto> ''OSV-3'']"
        and osv = example_osv and store = example_store and vuln_id = "''OSV-3''"
        and bug = "example_bug ''OSV-3'' PROCESSED False None 7"] g(3) s(2,3)
    by simp
  have 5: "vulnerability_handler example_osv example_store [''id'' \<mapsto> ''OSV-1'']
     = Ok (bug_to_response example_osv
             (example_bug ''OSV-1'' PROCESSED True (Some ''PyPI'') 5) True)"
    using vulnerability_handler_outcomes [where args = "[''id'' \<mapsto> ''OSV-1'']"
        and osv = example_osv and store = example_store and vuln_id = "''OSV-1''"
        and bug = "example_bug ''OSV-1'' PROCESSED True (Some ''PyPI'') 5"] g(4) s(4,5)
    by simp
  from 1 2 3 4 5 show ?thesis by blast
qed

subsection \<open>Invalid records\<close>

lemma invalid_add_links: "invalid (add_links get_vcs response) = invalid response"
  by (simp add: add_links_def split: option.splits)

lemma invalid_add_source_info: "invalid (add_source_info osv bug response) = invalid response"
  by (simp add: add_source_info_def Let_def split: option.splits)

lemma invalid_bug_to_response:
  "invalid (bug_to_response osv bug detailed) = Some (status bug = INVALID)"
  by (simp add: bug_to_response_def Let_def invalid_add_links invalid_add_source_info)

text \<open>
  C9. A record that exists, is public and has status \<open>INVALID\<close> is fetched without an
  error: the handler returns its detailed response, in which \<open>invalid\<close> is true. Only
  the status \<open>UNPROCESSED\<close> leads to 404.
\<close>

theorem vulnerability_handler_invalid_record:
  assumes "args ''id'' = Some vuln_id" and "vuln_id \<noteq> []"
    and "get_by_id store vuln_id = Some bug"
    and "public bug" and "status bug = INVALID"
  shows "vulnerability_handler osv store args = Ok (bug_to_response osv bug True) \<and>
     invalid (bug_to_response osv bug True) = Some True"
  using assms by (simp add: vulnerability_handler_def invalid_bug_to_response)

theorem vulnerability_handler_invalid_record_witness:
  "[''id'' \<mapsto> ''OSV-4''] ''id'' = Some ''OSV-4'' \<and> ''OSV-4'' \<noteq> [] \<and>
   get_by_id example_store ''OSV-4'' = Some (example_bug ''OSV-4'' INVALID True (Some ''npm'') 1) \<and>
   public (example_bug ''OSV-4'' INVALID True (Some ''npm'') 1) \<and>
   status (example_bug ''OSV-4'' INVALID True (Some ''npm'') 1) = INVALID \<and>
   vulnerability_handler example_osv example_store [''id'' \<mapsto> ''OSV-4'']
     = Ok (bug_to_response example_osv (example_bug ''OSV-4'' INVALID True (Some ''npm'') 1) True) \<and>
   invalid (bug_to_response example_osv (example_bug ''OSV-4'' INVALID True (Some ''npm'') 1) True)
     = Some True"
proof -
  have h1: "[''id'' \<mapsto> ''OSV-4''] ''id'' = Some ''OSV-4''" and h2: "''OSV-4'' \<noteq> []"
    by simp_all
  have h3: "get_by_id example_store ''OSV-4''
      = Some (example_bug ''OSV-4'' INVALID True (Some ''npm'') 1)"
    by (simp add: get_by_id_def example_store_def example_bug_def)
  have h4: "public (example_bug ''OSV-4'' INVALID True (Some ''npm'') 1)"
    and h5: "status (example_bug ''OSV-4'' INVALID True (Some ''npm'') 1) = INVALID"
    by (simp_all add: example_bug_def)
  from vulnerability_handler_invalid_record [where osv = example_osv
      and args = "[''id'' \<mapsto> ''OSV-4'']" and vuln_id = "''OSV-4''" and store = example_store
      and bug = "example_bug ''OSV-4'' INVALID True (Some ''npm'') 1", OF h1 h2 h3 h4 h5]
    h1 h2 h3 h4 h5
  show ?thesis by blast
qed

subsection \<open>The rate limit\<close>

text \<open>
  C8. In production every request is checked before its view function runs. The client
  address given to the limiter is the value of the header \<open>X-Appengine-User-Ip\<close>, or
  the literal \<open>unknown\<close> when the header is absent. When the check fails the request
  ends with status 429, whatever the route and the store; when it passes, the outcome
  is that of the view function. In both cases the limiter has counted the request.
\<close>

theorem rate_limit_before_handlers:
  assumes "is_prod gae_env"
  shows "handle_request gae_env check_request osv limiter store req =
     (let ip_addr = (case req_headers req ''X-Appengine-User-Ip'' of
                       None \<Rightarrow> ''unknown''
                     | Some a \<Rightarrow> a)
      in (if fst (check_request limiter ip_addr) then dispatch osv store req else Abort 429,
          snd (check_request limiter ip_addr)))"
  using assms
  by (simp add: handle_request_def check_rate_limit_def Let_def split: prod.splits)

theorem rate_limit_before_handlers_witness:
  "is_prod (Some ''standard'') \<and>
   handle_request (Some ''standard'') (\<lambda>(counts :: string \<Rightarrow> nat) ip.
        (counts ip < 30, counts(ip := Suc (counts ip))))
     example_osv (\<lambda>ip. if ip = ''unknown'' then 30 else 0)
     \<lparr>bug_entities = example_store, package_tag_entities = []\<rparr>
     \<lparr>req_endpoint = Ecosystems, req_args = Map.empty, req_headers = Map.empty\<rparr>
   = (Abort 429, (\<lambda>ip. if ip = ''unknown'' then 30 else 0)(''unknown'' := 31))"
proof -
  have h: "is_prod (Some ''standard'')"
    by (simp add: is_prod_def)
  show ?thesis
    using rate_limit_before_handlers [OF h, where check_request = "\<lambda>(counts :: string \<Rightarrow> nat) ip.
        (counts ip < 30, counts(ip := Suc (counts ip)))" and osv = example_osv
        and limiter = "\<lambda>ip. if ip = ''unknown'' then 30 else 0"
        and store = "\<lparr>bug_entities = example_store, package_tag_entities = []\<rparr>"
        and req = "\<lparr>req_endpoint = Ecosystems, req_args = Map.empty, req_headers = Map.empty\<rparr>"] h
    by (simp add: Let_def)
qed

end
